theory Spec2Isabelle
  imports Complex_Main "HOL-Library.Sublist"
begin

section \<open>Respiratory sinus arrhythmia: a model of neurokit2/ecg/ecg_rsa.py\<close>

text \<open>
  The module computes two estimates of respiratory sinus arrhythmia from a table of cardiac
  features and a table of respiratory features: the peak-to-trough estimate (one value per
  breath, with summary statistics) and the Porges-Bohrer estimate (mean log-variance of a
  band-limited heart period over 30-second epochs).

  Conventions of the model:
  \<^item> a Python exception is a value \<open>Inl e\<close> of the type \<open>error + 'a\<close>;
  \<^item> a numpy float is a value of \<open>npfloat\<close>: not-a-number, the two infinities, or a finite
    real. Finite arithmetic is exact (rounding, overflow and the sign of zero are left out);
    the special values follow IEEE 754 as numpy computes them;
  \<^item> a numpy integer array is an \<open>int list\<close>;
  \<^item> a pandas DataFrame is the list of its labelled columns, on the default row index.
\<close>

subsection \<open>Exceptions\<close>

datatype error =
    ValueError string
  | KeyError string
  | IndexError
  | TypeError
  | NameError
  | RuntimeError

definition bindE :: "error + 'a \<Rightarrow> ('a \<Rightarrow> error + 'b) \<Rightarrow> error + 'b" where
  "bindE m f = (case m of Inl e \<Rightarrow> Inl e | Inr x \<Rightarrow> f x)"

fun sequenceE :: "(error + 'a) list \<Rightarrow> error + 'a list" where
  "sequenceE [] = Inr []"
| "sequenceE (m # ms) = bindE m (\<lambda>x. bindE (sequenceE ms) (\<lambda>xs. Inr (x # xs)))"

subsection \<open>Floating-point values\<close>

datatype npfloat = NaN | NInf | Fin real | PInf

fun fneg :: "npfloat \<Rightarrow> npfloat" where
  "fneg NaN = NaN"
| "fneg NInf = PInf"
| "fneg PInf = NInf"
| "fneg (Fin a) = Fin (- a)"

fun fadd :: "npfloat \<Rightarrow> npfloat \<Rightarrow> npfloat" where
  "fadd NaN _ = NaN"
| "fadd _ NaN = NaN"
| "fadd (Fin a) (Fin b) = Fin (a + b)"
| "fadd PInf NInf = NaN"
| "fadd NInf PInf = NaN"
| "fadd PInf _ = PInf"
| "fadd _ PInf = PInf"
| "fadd NInf _ = NInf"
| "fadd _ NInf = NInf"

definition fsub :: "npfloat \<Rightarrow> npfloat \<Rightarrow> npfloat" where
  "fsub a b = fadd a (fneg b)"

fun fmul :: "npfloat \<Rightarrow> npfloat \<Rightarrow> npfloat" where
  "fmul NaN _ = NaN"
| "fmul _ NaN = NaN"
| "fmul (Fin a) (Fin b) = Fin (a * b)"
| "fmul PInf (Fin b) = (if b = 0 then NaN else if 0 < b then PInf else NInf)"
| "fmul NInf (Fin b) = (if b = 0 then NaN else if 0 < b then NInf else PInf)"
| "fmul (Fin a) PInf = (if a = 0 then NaN else if 0 < a then PInf else NInf)"
| "fmul (Fin a) NInf = (if a = 0 then NaN else if 0 < a then NInf else PInf)"
| "fmul PInf PInf = PInf"
| "fmul NInf NInf = PInf"
| "fmul PInf NInf = NInf"
| "fmul NInf PInf = NInf"

text \<open>Division by zero does not raise in numpy: \<open>x / 0\<close> is an infinity of the sign of
  \<open>x\<close>, and \<open>0 / 0\<close> is not-a-number (a warning is printed).\<close>

fun fdiv :: "npfloat \<Rightarrow> npfloat \<Rightarrow> npfloat" where
  "fdiv NaN _ = NaN"
| "fdiv _ NaN = NaN"
| "fdiv (Fin a) (Fin b) =
     (if b = 0 then (if a = 0 then NaN else if 0 < a then PInf else NInf) else Fin (a / b))"
| "fdiv (Fin a) PInf = Fin 0"
| "fdiv (Fin a) NInf = Fin 0"
| "fdiv PInf (Fin b) = (if 0 \<le> b then PInf else NInf)"
| "fdiv NInf (Fin b) = (if 0 \<le> b then NInf else PInf)"
| "fdiv PInf PInf = NaN"
| "fdiv PInf NInf = NaN"
| "fdiv NInf PInf = NaN"
| "fdiv NInf NInf = NaN"

text \<open>\<open>np.log\<close>: the logarithm of zero is minus infinity, of a negative number
  not-a-number; neither raises.\<close>

fun np_log :: "npfloat \<Rightarrow> npfloat" where
  "np_log NaN = NaN"
| "np_log NInf = NaN"
| "np_log PInf = PInf"
| "np_log (Fin a) = (if 0 < a then Fin (ln a) else if a = 0 then NInf else NaN)"

fun np_sqrt :: "npfloat \<Rightarrow> npfloat" where
  "np_sqrt NaN = NaN"
| "np_sqrt NInf = NaN"
| "np_sqrt PInf = PInf"
| "np_sqrt (Fin a) = (if 0 \<le> a then Fin (sqrt a) else NaN)"

definition np_isnan :: "npfloat \<Rightarrow> bool" where
  "np_isnan v = (v = NaN)"

fun fle :: "npfloat \<Rightarrow> npfloat \<Rightarrow> bool" where
  "fle NaN _ = False"
| "fle _ NaN = False"
| "fle NInf _ = True"
| "fle _ PInf = True"
| "fle (Fin a) (Fin b) = (a \<le> b)"
| "fle PInf _ = False"
| "fle _ NInf = False"

text \<open>The maximum and minimum of numpy propagate not-a-number.\<close>

definition fmax :: "npfloat \<Rightarrow> npfloat \<Rightarrow> npfloat" where
  "fmax a b = (if np_isnan a \<or> np_isnan b then NaN else if fle a b then b else a)"

definition fmin :: "npfloat \<Rightarrow> npfloat \<Rightarrow> npfloat" where
  "fmin a b = (if np_isnan a \<or> np_isnan b then NaN else if fle a b then a else b)"

definition np_max :: "npfloat list \<Rightarrow> error + npfloat" where
  "np_max xs = (case xs of
       [] \<Rightarrow> Inl (ValueError ''zero-size array to reduction operation maximum which has no identity'')
     | x # r \<Rightarrow> Inr (foldl fmax x r))"

definition np_min :: "npfloat list \<Rightarrow> error + npfloat" where
  "np_min xs = (case xs of
       [] \<Rightarrow> Inl (ValueError ''zero-size array to reduction operation minimum which has no identity'')
     | x # r \<Rightarrow> Inr (foldl fmin x r))"

definition np_sum :: "npfloat list \<Rightarrow> npfloat" where
  "np_sum xs = foldl fadd (Fin 0) xs"

text \<open>\<open>np.diff\<close> of an integer array: the successive differences, one fewer than the
  elements (none for an array of fewer than two elements).\<close>

fun np_diff :: "int list \<Rightarrow> int list" where
  "np_diff (x # y # zs) = (y - x) # np_diff (y # zs)"
| "np_diff _ = []"

text \<open>True division of an integer by the integer sampling rate.\<close>

definition np_true_divide :: "int \<Rightarrow> int \<Rightarrow> npfloat" where
  "np_true_divide d r = fdiv (Fin (of_int d)) (Fin (of_int r))"

text \<open>\<open>np.nanmean\<close>: the not-a-number entries are left out of the sum and of the count; the
  mean of nothing is \<open>0 / 0\<close>, not-a-number.\<close>

definition np_nanmean :: "npfloat list \<Rightarrow> npfloat" where
  "np_nanmean a =
     (let arr = filter (\<lambda>v. \<not> np_isnan v) a;
          cnt = length arr
      in fdiv (np_sum arr) (Fin (real cnt)))"

text \<open>\<open>np.nanvar\<close> and \<open>np.nanstd\<close> with \<open>ddof\<close> delta degrees of freedom: the squared
  deviations from the mean of the entries that are numbers, summed and divided by their count
  minus \<open>ddof\<close>; not-a-number when that divisor is not positive.\<close>

definition np_nanvar :: "npfloat list \<Rightarrow> nat \<Rightarrow> npfloat" where
  "np_nanvar a ddof =
     (let arr = filter (\<lambda>v. \<not> np_isnan v) a;
          cnt = length arr;
          avg = fdiv (np_sum arr) (Fin (real cnt));
          dev = map (\<lambda>x. fsub x avg) arr;
          sqr = map (\<lambda>d. fmul d d) dev;
          dof = int cnt - int ddof
      in if dof \<le> 0 then NaN else fdiv (np_sum sqr) (Fin (of_int dof)))"

definition np_nanstd :: "npfloat list \<Rightarrow> nat \<Rightarrow> npfloat" where
  "np_nanstd a ddof = np_sqrt (np_nanvar a ddof)"

subsection \<open>The peak-to-trough estimator\<close>

text \<open>The first loop of \<open>_ecg_rsa_p2t\<close>: for each pair of successive onsets, the beats
  \<open>r\<close> with \<open>cycle_init \<le> r < cycle_end\<close>.\<close>

definition cycles_rri :: "int list \<Rightarrow> int list \<Rightarrow> int list list" where
  "cycles_rri rsp_onsets rpeaks =
     map (\<lambda>idx. filter (\<lambda>r. rsp_onsets ! idx \<le> r \<and> r < rsp_onsets ! (idx + 1)) rpeaks)
       [0 ..< length rsp_onsets - 1]"

text \<open>The body of the second loop: the value of one cycle, not-a-number unless the cycle
  has more than one inter-beat interval.\<close>

definition rsa_value :: "int \<Rightarrow> int list \<Rightarrow> error + npfloat" where
  "rsa_value sampling_rate cycle =
     (let RRis = map (\<lambda>d. np_true_divide d sampling_rate) (np_diff cycle)
      in if length RRis > 1
         then bindE (np_max RRis) (\<lambda>mx. bindE (np_min RRis) (\<lambda>mn. Inr (fsub mx mn)))
         else Inr NaN)"

definition rsa_values :: "int list \<Rightarrow> int list \<Rightarrow> int \<Rightarrow> error + npfloat list" where
  "rsa_values rsp_onsets rpeaks sampling_rate =
     sequenceE (map (rsa_value sampling_rate) (cycles_rri rsp_onsets rpeaks))"

record p2t_features =
  RSA_P2T_Mean :: npfloat
  RSA_P2T_Mean_log :: npfloat
  RSA_P2T_SD :: npfloat
  RSA_P2T_NoRSA :: nat

datatype p2t_result = P2T_Features p2t_features | P2T_Trace "npfloat list"

text \<open>\<open>arr[mask]\<close> with a boolean mask: the lengths must agree.\<close>

definition np_mask :: "'a list \<Rightarrow> bool list \<Rightarrow> error + 'a list" where
  "np_mask arr msk =
     (if length arr \<noteq> length msk then Inl IndexError
      else Inr (map fst (filter snd (zip arr msk))))"

text \<open>\<open>_ecg_rsa_p2t\<close>. The interpolation of the continuous mode is another module's
  \<open>signal_interpolate\<close>, a parameter here.\<close>

definition ecg_rsa_p2t ::
  "(int list \<Rightarrow> npfloat list \<Rightarrow> nat \<Rightarrow> error + npfloat list) \<Rightarrow>
   int list \<Rightarrow> int list \<Rightarrow> int \<Rightarrow> bool \<Rightarrow> npfloat list \<Rightarrow> int list \<Rightarrow> error + p2t_result" where
  "ecg_rsa_p2t signal_interpolate rsp_onsets rpeaks sampling_rate continuous_mode ecg_period rsp_peaks =
     bindE (rsa_values rsp_onsets rpeaks sampling_rate) (\<lambda>vals.
       if \<not> continuous_mode then
         (let mean = np_nanmean vals in
          Inr (P2T_Features
            \<lparr> RSA_P2T_Mean = mean,
              RSA_P2T_Mean_log = np_log mean,
              RSA_P2T_SD = np_nanstd vals 1,
              RSA_P2T_NoRSA = length (filter np_isnan vals) \<rparr>))
       else
         (let keep = map (\<lambda>v. \<not> np_isnan v) vals in
          bindE (np_mask rsp_peaks keep) (\<lambda>x_values.
          bindE (np_mask vals keep) (\<lambda>y_values.
          bindE (signal_interpolate x_values y_values (length ecg_period)) (\<lambda>rsa.
          Inr (P2T_Trace rsa))))))"

subsection \<open>Tables\<close>

text \<open>A DataFrame on the default row index: its columns in order, each with its label. The
  frames of this module have distinct labels and columns of one length.\<close>

type_synonym column = "npfloat list"

type_synonym dataframe = "(string \<times> column) list"

definition df_columns :: "dataframe \<Rightarrow> string list" where
  "df_columns df = map fst df"

text \<open>\<open>df[label]\<close> raises \<open>KeyError\<close> for a label the frame does not have.\<close>

definition df_column :: "dataframe \<Rightarrow> string \<Rightarrow> error + column" where
  "df_column df label = (case map_of df label of None \<Rightarrow> Inl (KeyError label) | Some c \<Rightarrow> Inr c)"

definition df_len :: "dataframe \<Rightarrow> nat" where
  "df_len df = (case df of [] \<Rightarrow> 0 | (_, c) # _ \<Rightarrow> length c)"

text \<open>\<open>pd.concat([a, b], axis=1)\<close>: the columns of both frames side by side, aligned on the
  row index; a frame with fewer rows is filled with not-a-number. An argument that is
  \<open>None\<close> is dropped.\<close>

definition pd_concat_columns :: "dataframe \<Rightarrow> dataframe option \<Rightarrow> dataframe" where
  "pd_concat_columns a b =
     (case b of
        None \<Rightarrow> a
      | Some b' \<Rightarrow>
          (let n = max (df_len a) (df_len b')
           in map (\<lambda>(label, c). (label, c @ replicate (n - length c) NaN)) (a @ b')))"

text \<open>\<open>np.where(mask)[0]\<close> and \<open>np.argwhere(mask)[:, 0]\<close>: the indices at which the mask
  holds, in increasing order.\<close>

definition np_where :: "bool list \<Rightarrow> int list" where
  "np_where msk = map int (filter (\<lambda>i. msk ! i) [0 ..< length msk])"

definition col_eq :: "column \<Rightarrow> real \<Rightarrow> bool list" where
  "col_eq c v = map (\<lambda>x. x = Fin v) c"

subsection \<open>The cycle extractor\<close>

text \<open>\<open>np.intersect1d(ar1, ar2, assume_unique=True)\<close> concatenates the two arrays, sorts
  the result and keeps each element that equals its successor
  (\<open>aux[:-1][aux[1:] == aux[:-1]]\<close>).\<close>

fun adjacent_equal :: "int list \<Rightarrow> int list" where
  "adjacent_equal (x # y # zs) =
     (if y = x then x # adjacent_equal (y # zs) else adjacent_equal (y # zs))"
| "adjacent_equal _ = []"

definition np_intersect1d :: "int list \<Rightarrow> int list \<Rightarrow> int list" where
  "np_intersect1d ar1 ar2 = adjacent_equal (sort (ar1 @ ar2))"

record rsp_cycles =
  RSP_Inspiration_Onsets :: "int list"
  RSP_Expiration_Onsets :: "int list"
  RSP_Cycles_Length :: "int list"

definition ecg_rsa_cycles :: "dataframe \<Rightarrow> error + rsp_cycles" where
  "ecg_rsa_cycles signals =
     bindE (df_column signals ''RSP_Phase'') (\<lambda>phase1.
     bindE (df_column signals ''RSP_Phase_Completion'') (\<lambda>completion1.
     let inspiration_onsets =
           np_intersect1d (np_where (col_eq phase1 1)) (np_where (col_eq completion1 0)) in
     bindE (df_column signals ''RSP_Phase'') (\<lambda>phase0.
     bindE (df_column signals ''RSP_Phase_Completion'') (\<lambda>completion0.
     let expiration_onsets =
           np_intersect1d (np_where (col_eq phase0 0)) (np_where (col_eq completion0 0));
         cycles_length = np_diff inspiration_onsets
     in Inr \<lparr> RSP_Inspiration_Onsets = inspiration_onsets,
              RSP_Expiration_Onsets = expiration_onsets,
              RSP_Cycles_Length = cycles_length \<rparr>))))"

subsection \<open>The Porges-Bohrer estimator\<close>

text \<open>The functions of the other modules that this one calls. Their sources are not part of
  this module; each is a parameter of the model and may raise.\<close>

type_synonym peaks_dict = "(string \<times> int list) list"

datatype peaks_source = PeaksFrame dataframe | PeaksDict peaks_dict

record collaborators =
  signal_resample :: "column \<Rightarrow> int \<Rightarrow> int \<Rightarrow> error + column"
  signal_filter ::
    "column \<Rightarrow> int \<Rightarrow> real option \<Rightarrow> real option \<Rightarrow> string option \<Rightarrow> nat option \<Rightarrow> nat option
      \<Rightarrow> error + column"
  signal_interpolate :: "int list \<Rightarrow> npfloat list \<Rightarrow> nat \<Rightarrow> error + column"
  signal_rate :: "peaks_dict option \<Rightarrow> int \<Rightarrow> nat \<Rightarrow> error + column"
  ecg_rsp :: "column \<Rightarrow> int \<Rightarrow> error + column"
  rsp_process :: "column \<Rightarrow> int \<Rightarrow> error + dataframe"
  signal_formatpeaks_sanitize :: "peaks_source \<Rightarrow> error + int list"

text \<open>\<open>resampled - trend\<close>: element by element; an array of one element is broadcast, and
  any other difference of lengths raises.\<close>

definition np_subtract :: "column \<Rightarrow> column \<Rightarrow> error + column" where
  "np_subtract xs ys =
     (if length xs = length ys then Inr (map2 fsub xs ys)
      else if length ys = 1 then Inr (map (\<lambda>x. fsub x (hd ys)) xs)
      else if length xs = 1 then Inr (map (\<lambda>y. fsub (hd xs) y) ys)
      else Inl (ValueError ''operands could not be broadcast together''))"

text \<open>Lines 205 to 215: the heart period at 2 Hz, less its trend, band-limited.\<close>

definition pb_residual :: "collaborators \<Rightarrow> column \<Rightarrow> int \<Rightarrow> error + column" where
  "pb_residual C ecg_period sampling_rate =
     bindE (signal_resample C ecg_period sampling_rate 2) (\<lambda>resampled.
     bindE (signal_filter C resampled 2 (Some 0.095) None (Some ''savgol'') (Some 3) (Some 21))
       (\<lambda>trend.
     bindE (np_subtract resampled trend) (\<lambda>zero_mean.
     signal_filter C zero_mean 2 (Some 0.12) (Some 0.40) None None None)))"

text \<open>The sample at index \<open>i\<close> of the 2 Hz series is at \<open>i / 2\<close> seconds; its epoch is
  \<open>(i / 2) // 30\<close>.\<close>

definition epoch_index :: "nat \<Rightarrow> nat" where
  "epoch_index i = nat \<lfloor>(real i / 2) / 30\<rfloor>"

text \<open>\<open>np.max\<close> of the epoch indices raises on an empty series. \<open>time.loc[i]\<close> selects
  the rows labelled \<open>i\<close> and raises \<open>KeyError\<close> when there is none.\<close>

definition time_loc :: "(nat \<times> npfloat) list \<Rightarrow> nat \<Rightarrow> error + npfloat list" where
  "time_loc time i =
     (let rows = map snd (filter (\<lambda>(e, x). e = i) time)
      in if rows = [] then Inl (KeyError ''Epoch Index'') else Inr rows)"

definition pb_epoch_list :: "column \<Rightarrow> error + npfloat list list" where
  "pb_epoch_list zero_mean_filtered =
     (let time = zip (map epoch_index [0 ..< length zero_mean_filtered]) zero_mean_filtered
      in if time = []
         then Inl (ValueError ''zero-size array to reduction operation maximum which has no identity'')
         else sequenceE (map (time_loc time) [0 ..< Max (set (map fst time)) + 1]))"

text \<open>The variance of pandas: not-a-number entries are skipped, the divisor is the count
  less one, and fewer than two entries give not-a-number. A label with a single row selects
  that row alone, whose variance is not-a-number as well.\<close>

definition pd_var :: "npfloat list \<Rightarrow> npfloat" where
  "pd_var xs = np_nanvar xs 1"

definition pd_mean :: "npfloat list \<Rightarrow> npfloat" where
  "pd_mean xs = np_nanmean xs"

definition pb_variance :: "npfloat list list \<Rightarrow> npfloat list" where
  "pb_variance epochs = map (\<lambda>epoch. np_log (fdiv (pd_var epoch) (Fin 1000))) epochs"

text \<open>\<open>pd.concat\<close> of an empty list raises.\<close>

definition pd_concat :: "npfloat list \<Rightarrow> error + npfloat list" where
  "pd_concat objs =
     (if objs = [] then Inl (ValueError ''No objects to concatenate'') else Inr objs)"

text \<open>Lines 217 to 229.\<close>

definition pb_epochs :: "column \<Rightarrow> error + npfloat" where
  "pb_epochs zero_mean_filtered =
     bindE (pb_epoch_list zero_mean_filtered) (\<lambda>epochs.
       let variance = pb_variance epochs;
           variance = filter (\<lambda>row. \<not> np_isnan row) variance
       in bindE (pd_concat variance) (\<lambda>s. Inr (pd_mean s)))"

record pb_features =
  RSA_PorgesBohrer :: npfloat

definition ecg_rsa_pb :: "collaborators \<Rightarrow> column \<Rightarrow> int \<Rightarrow> bool \<Rightarrow> error + pb_features option" where
  "ecg_rsa_pb C ecg_period sampling_rate continuous_mode =
     (if continuous_mode then Inr None
      else bindE (pb_residual C ecg_period sampling_rate) (\<lambda>zero_mean_filtered.
           bindE (pb_epochs zero_mean_filtered) (\<lambda>v.
           Inr (Some \<lparr> RSA_PorgesBohrer = v \<rparr>))))"

subsection \<open>The input formatter\<close>

text \<open>The cardiac argument is a frame or the pair that \<open>ecg_process\<close> returns; the
  respiratory argument is absent, a frame, or the pair that \<open>rsp_process\<close> returns; the
  beats are absent or a dictionary of index arrays.\<close>

datatype ecg_arg = EcgFrame dataframe | EcgTuple dataframe peaks_dict

datatype rsp_arg = RspNone | RspFrame dataframe | RspTuple dataframe peaks_dict

definition cols_containing :: "string \<Rightarrow> dataframe \<Rightarrow> string list" where
  "cols_containing key df = filter (\<lambda>col. sublist key col) (df_columns df)"

text \<open>Lines 328 to 340: the heart period.\<close>

definition heart_period ::
  "collaborators \<Rightarrow> dataframe \<Rightarrow> peaks_dict option \<Rightarrow> int \<Rightarrow> error + column" where
  "heart_period C ecg_signals rpeaks sampling_rate =
     (case cols_containing ''ECG_Rate'' ecg_signals of
        col # _ \<Rightarrow> df_column ecg_signals col
      | [] \<Rightarrow>
          (case cols_containing ''ECG_R_Peaks'' ecg_signals of
             _ # _ \<Rightarrow> signal_rate C rpeaks sampling_rate (df_len ecg_signals)
           | [] \<Rightarrow>
               Inl (ValueError
                 ''NeuroKit error: _ecg_rsa_formatinput():Wrong input, we couldn't extractheart rate signal.'')))"

text \<open>Lines 341 to 364: the respiratory frame, derived from the heart period when none with
  two phase columns is given. The warnings printed there are left out.\<close>

definition derived_rsp :: "collaborators \<Rightarrow> column \<Rightarrow> int \<Rightarrow> error + dataframe" where
  "derived_rsp C ecg_period sampling_rate =
     bindE (ecg_rsp C ecg_period sampling_rate) (\<lambda>edr. rsp_process C edr sampling_rate)"

definition rsp_frame ::
  "collaborators \<Rightarrow> dataframe \<Rightarrow> rsp_arg \<Rightarrow> column \<Rightarrow> int \<Rightarrow> error + dataframe option" where
  "rsp_frame C ecg_signals rsp_signals ecg_period sampling_rate =
     bindE
       (case rsp_signals of
          RspNone \<Rightarrow>
            (if length (cols_containing ''RSP_Phase'' ecg_signals) \<noteq> 2
             then bindE (derived_rsp C ecg_period sampling_rate) (\<lambda>r. Inr (Some r))
             else Inr None)
        | RspTuple r _ \<Rightarrow> Inr (Some r)
        | RspFrame r \<Rightarrow> Inr (Some r))
       (\<lambda>rsp_signals'.
          case rsp_signals' of
            None \<Rightarrow> Inr None
          | Some r \<Rightarrow>
              (if length (cols_containing ''RSP_Phase'' r) \<noteq> 2
               then bindE (derived_rsp C ecg_period sampling_rate) (\<lambda>r'. Inr (Some r'))
               else Inr (Some r)))"

text \<open>Lines 366 to 372: the beat indices. Only a \<open>NameError\<close> of the sanitizer is turned
  into the formatter's \<open>ValueError\<close>; any other exception passes unchanged.\<close>

definition locate_rpeaks ::
  "collaborators \<Rightarrow> dataframe \<Rightarrow> peaks_dict option \<Rightarrow> error + int list" where
  "locate_rpeaks C ecg_signals rpeaks =
     (case rpeaks of
        None \<Rightarrow>
          (case signal_formatpeaks_sanitize C (PeaksFrame ecg_signals) of
             Inl NameError \<Rightarrow>
               Inl (ValueError
                 ''NeuroKit error: _ecg_rsa_formatinput(): Wrong input, we couldn't extract rpeaks indices.'')
           | Inl e \<Rightarrow> Inl e
           | Inr r \<Rightarrow> Inr r)
      | Some d \<Rightarrow> signal_formatpeaks_sanitize C (PeaksDict d))"

text \<open>Lines 376 to 384.\<close>

definition rsp_signal_of :: "dataframe \<Rightarrow> error + column option" where
  "rsp_signal_of signals =
     (if ''RSP_Clean'' \<in> set (df_columns signals)
        then bindE (df_column signals ''RSP_Clean'') (\<lambda>c. Inr (Some c))
      else if ''RSP_Raw'' \<in> set (df_columns signals)
        then bindE (df_column signals ''RSP_Raw'') (\<lambda>c. Inr (Some c))
      else if ''RSP'' \<in> set (df_columns signals)
        then bindE (df_column signals ''RSP'') (\<lambda>c. Inr (Some c))
      else Inr None)"

definition ecg_rsa_formatinput ::
  "collaborators \<Rightarrow> ecg_arg \<Rightarrow> rsp_arg \<Rightarrow> peaks_dict option \<Rightarrow> int
    \<Rightarrow> error + (dataframe \<times> column \<times> int list \<times> column option)" where
  "ecg_rsa_formatinput C ecg_signals rsp_signals rpeaks sampling_rate =
     (let (ecg_signals', rpeaks') =
            (case ecg_signals of
               EcgTuple df _ \<Rightarrow> (df, None)
             | EcgFrame df \<Rightarrow> (df, rpeaks))
      in bindE (heart_period C ecg_signals' rpeaks' sampling_rate) (\<lambda>ecg_period.
         bindE (rsp_frame C ecg_signals' rsp_signals ecg_period sampling_rate) (\<lambda>rsp_signals'.
         bindE (locate_rpeaks C ecg_signals' rpeaks') (\<lambda>rpeaks''.
         let signals = pd_concat_columns ecg_signals' rsp_signals'
         in bindE (rsp_signal_of signals) (\<lambda>rsp_signal.
            Inr (signals, ecg_period, rpeaks'', rsp_signal))))))"

subsection \<open>The entry point\<close>

text \<open>The result: in the non-continuous mode the dictionary that holds the entries of the
  peak-to-trough dictionary and of the Porges-Bohrer dictionary, in the continuous mode a
  frame of one column.\<close>

datatype rsa_result = RSA_Features p2t_features pb_features | RSA_Signal dataframe

text \<open>\<open>rsp_onsets[0]\<close> raises \<open>IndexError\<close> on an empty array.\<close>

definition first_onset :: "int list \<Rightarrow> error + int" where
  "first_onset rsp_onsets = (case rsp_onsets of [] \<Rightarrow> Inl IndexError | x # _ \<Rightarrow> Inr x)"

definition ecg_rsa ::
  "collaborators \<Rightarrow> ecg_arg \<Rightarrow> rsp_arg \<Rightarrow> peaks_dict option \<Rightarrow> int \<Rightarrow> bool \<Rightarrow> error + rsa_result" where
  "ecg_rsa C ecg_signals rsp_signals rpeaks sampling_rate continuous_mode =
     bindE (ecg_rsa_formatinput C ecg_signals rsp_signals rpeaks sampling_rate)
       (\<lambda>(signals, ecg_period, rpeaks', rsp_signal).
     bindE (ecg_rsa_cycles signals) (\<lambda>rsp_cycles.
     let rsp_onsets = RSP_Inspiration_Onsets rsp_cycles in
     bindE (df_column signals ''RSP_Peaks'') (\<lambda>peaks_column.
     let rsp_peaks = np_where (col_eq peaks_column 1) in
     bindE (first_onset rsp_onsets) (\<lambda>onset0.
     let rsp_peaks = filter (\<lambda>p. p > onset0) rsp_peaks;
         rsp_peaks = (if int (length rsp_peaks) - int (length rsp_onsets) = 0
                      then butlast rsp_peaks else rsp_peaks)
     in
     bindE (ecg_rsa_p2t (signal_interpolate C) rsp_onsets rpeaks' sampling_rate continuous_mode
              ecg_period rsp_peaks) (\<lambda>rsa_p2t.
     bindE (ecg_rsa_pb C ecg_period sampling_rate continuous_mode) (\<lambda>rsa_pb.
     if \<not> continuous_mode then
       (case (rsa_p2t, rsa_pb) of
          (P2T_Features f, Some pb) \<Rightarrow> Inr (RSA_Features f pb)
        | _ \<Rightarrow> Inl TypeError)
     else
       (case rsa_p2t of
          P2T_Trace t \<Rightarrow> Inr (RSA_Signal [(''RSA_P2T'', t)])
        | P2T_Features _ \<Rightarrow> Inl TypeError)))))))"

subsection \<open>Notions of the specification\<close>

text \<open>The beats of the respiratory cycle \<open>i\<close>, the half-open interval from onset \<open>i\<close> to
  onset \<open>i + 1\<close>.\<close>

definition beats_in_cycle :: "int list \<Rightarrow> int list \<Rightarrow> nat \<Rightarrow> int list" where
  "beats_in_cycle rsp_onsets rpeaks i =
     filter (\<lambda>r. rsp_onsets ! i \<le> r \<and> r < rsp_onsets ! (i + 1)) rpeaks"

text \<open>The successive inter-beat intervals, in seconds.\<close>

definition inter_beat_intervals :: "int \<Rightarrow> int list \<Rightarrow> real list" where
  "inter_beat_intervals sampling_rate beats =
     map (\<lambda>k. real_of_int (beats ! (k + 1) - beats ! k) / real_of_int sampling_rate)
       [0 ..< length beats - 1]"

text \<open>The finite entries of an array of per-cycle values.\<close>

definition valid_values :: "npfloat list \<Rightarrow> real list" where
  "valid_values vals = concat (map (\<lambda>v. case v of Fin x \<Rightarrow> [x] | _ \<Rightarrow> []) vals)"

definition nan_or_finite :: "npfloat \<Rightarrow> bool" where
  "nan_or_finite v = (case v of NaN \<Rightarrow> True | Fin _ \<Rightarrow> True | _ \<Rightarrow> False)"

definition mean :: "real list \<Rightarrow> real" where
  "mean xs = sum_list xs / real (length xs)"

text \<open>The sample variance and standard deviation with Bessel's correction.\<close>

definition sample_variance :: "real list \<Rightarrow> real" where
  "sample_variance xs = (\<Sum>x\<leftarrow>xs. (x - mean xs)\<^sup>2) / (real (length xs) - 1)"

definition sample_sd :: "real list \<Rightarrow> real" where
  "sample_sd xs = sqrt (sample_variance xs)"


text \<open>The 30-second epochs of a series at 2 Hz: successive windows of 60 samples that do not
  overlap; the last one holds what is left and may be shorter.\<close>

definition epochs_of :: "'a list \<Rightarrow> 'a list list" where
  "epochs_of xs = map (\<lambda>i. take 60 (drop (60 * i) xs)) [0 ..< (length xs - 1) div 60 + 1]"

text \<open>The value of an epoch: the logarithm of its sample variance over 1000.\<close>

definition epoch_value :: "real list \<Rightarrow> npfloat" where
  "epoch_value e = np_log (Fin (sample_variance e / 1000))"

subsection \<open>Stand-ins for the other modules\<close>

text \<open>Modelled from the spec: \<open>_signal_formatpeaks_sanitize\<close> belongs to the signal module,
  whose source is not part of this module. The specification says that the beats are taken
  from the peak-marker column of the cardiac table, or from the supplied beats, and that the
  sanitizer fails with an input error when the indices cannot be located.\<close>

definition spec_sanitize :: "peaks_source \<Rightarrow> error + int list" where
  "spec_sanitize src =
     (case src of
        PeaksFrame df \<Rightarrow>
          (case cols_containing ''Peaks'' df of
             [] \<Rightarrow> Inl (ValueError ''indices of peaks not found'')
           | col # _ \<Rightarrow> bindE (df_column df col) (\<lambda>c. Inr (np_where (col_eq c 1))))
      | PeaksDict d \<Rightarrow>
          (case filter (\<lambda>(k, v). sublist ''Peaks'' k) d of
             [] \<Rightarrow> Inl (ValueError ''indices of peaks not found'')
           | (k, v) # _ \<Rightarrow> Inr v))"

text \<open>Modelled from the spec: \<open>signal_resample\<close> belongs to the signal module, whose source
  is not part of this module. The specification gives its signature only. The stand-in returns
  a series that is already at the desired rate and raises otherwise.\<close>

definition spec_signal_resample :: "column \<Rightarrow> int \<Rightarrow> int \<Rightarrow> error + column" where
  "spec_signal_resample xs sampling_rate desired_sampling_rate =
     (if sampling_rate = desired_sampling_rate then Inr xs else Inl RuntimeError)"

text \<open>Modelled from the spec: \<open>signal_filter\<close> belongs to the signal module, whose source is
  not part of this module. The specification says that the first filter extracts the slow trend
  by local polynomial smoothing, that the second limits the residual to the band from 0.12 to
  0.40 Hz, and that a constant heart period has zero variance in every epoch. The stand-in
  returns what such filters return on the series of the examples: smoothing leaves a constant
  series as it is, and the band-pass leaves the zero series as it is; it raises otherwise.\<close>

definition spec_signal_filter ::
  "column \<Rightarrow> int \<Rightarrow> real option \<Rightarrow> real option \<Rightarrow> string option \<Rightarrow> nat option \<Rightarrow> nat option
    \<Rightarrow> error + column" where
  "spec_signal_filter xs sampling_rate lowcut highcut method order window_size =
     (if method = Some ''savgol''
      then (case xs of
              [] \<Rightarrow> Inr xs
            | x # r \<Rightarrow> if list_all (\<lambda>y. y = x) r then Inr xs else Inl RuntimeError)
      else if list_all (\<lambda>y. y = Fin 0) xs then Inr xs else Inl RuntimeError)"

text \<open>Modelled from the spec: the remaining functions (\<open>signal_interpolate\<close>,
  \<open>signal_rate\<close>, \<open>ecg_rsp\<close>, \<open>rsp_process\<close>) belong to other modules as well; the
  examples do not reach them, and their stand-ins raise.\<close>

definition spec_collaborators :: collaborators where
  "spec_collaborators =
     \<lparr> signal_resample = spec_signal_resample,
       signal_filter = spec_signal_filter,
       signal_interpolate = (\<lambda>x_values y_values desired_length. Inl RuntimeError),
       signal_rate = (\<lambda>rpeaks sampling_rate desired_length. Inl RuntimeError),
       ecg_rsp = (\<lambda>ecg_period sampling_rate. Inl RuntimeError),
       rsp_process = (\<lambda>edr sampling_rate. Inl RuntimeError),
       signal_formatpeaks_sanitize = spec_sanitize \<rparr>"

subsection \<open>The arguments of the formatter\<close>

text \<open>The cardiac table of the cardiac argument, the beats that the formatter keeps of those
  supplied, and what it hands to the sanitizer.\<close>

definition cardiac_table :: "ecg_arg \<Rightarrow> dataframe" where
  "cardiac_table a = (case a of EcgFrame df \<Rightarrow> df | EcgTuple df _ \<Rightarrow> df)"

definition kept_rpeaks :: "ecg_arg \<Rightarrow> peaks_dict option \<Rightarrow> peaks_dict option" where
  "kept_rpeaks a rpeaks = (case a of EcgFrame _ \<Rightarrow> rpeaks | EcgTuple _ _ \<Rightarrow> None)"


section \<open>Properties\<close>

subsection \<open>Errors and arithmetic\<close>

lemma bindE_Inl [simp]: "bindE (Inl e) f = Inl e"
  by (simp add: bindE_def)

lemma bindE_Inr [simp]: "bindE (Inr x) f = f x"
  by (simp add: bindE_def)

lemma sequenceE_map_Inr:
  "(\<And>x. x \<in> set xs \<Longrightarrow> f x = Inr (g x)) \<Longrightarrow> sequenceE (map f xs) = Inr (map g xs)"
  by (induction xs) simp_all

subsection \<open>The peak-to-trough estimator\<close>

lemma length_np_diff [simp]: "length (np_diff xs) = length xs - 1"
  by (induction xs rule: np_diff.induct) simp_all

lemma np_diff_nth: "k + 1 < length xs \<Longrightarrow> np_diff xs ! k = xs ! (k + 1) - xs ! k"
proof (induction xs arbitrary: k rule: np_diff.induct)
  case (1 x y zs)
  then show ?case by (cases k) simp_all
qed simp_all

lemma np_diff_conv: "np_diff xs = map (\<lambda>k. xs ! (k + 1) - xs ! k) [0 ..< length xs - 1]"
  by (rule nth_equalityI) (simp_all add: np_diff_nth)

lemma fmax_Fin [simp]: "fmax (Fin a) (Fin b) = Fin (max a b)"
  by (simp add: fmax_def np_isnan_def max_def)

lemma fmin_Fin [simp]: "fmin (Fin a) (Fin b) = Fin (min a b)"
  by (simp add: fmin_def np_isnan_def min_def)

lemma foldl_fmax_Fin: "foldl fmax (Fin a) (map Fin xs) = Fin (fold max xs a)"
  by (induction xs arbitrary: a) (simp_all add: max.commute)

lemma foldl_fmin_Fin: "foldl fmin (Fin a) (map Fin xs) = Fin (fold min xs a)"
  by (induction xs arbitrary: a) (simp_all add: min.commute)

lemma np_max_Fin: "xs \<noteq> [] \<Longrightarrow> np_max (map Fin xs) = Inr (Fin (Max (set xs)))"
  by (cases xs) (simp_all add: np_max_def foldl_fmax_Fin Max.set_eq_fold [symmetric] del: set_simps)

lemma np_min_Fin: "xs \<noteq> [] \<Longrightarrow> np_min (map Fin xs) = Inr (Fin (Min (set xs)))"
  by (cases xs) (simp_all add: np_min_def foldl_fmin_Fin Min.set_eq_fold [symmetric] del: set_simps)

lemma np_true_divide_Fin:
  "r \<noteq> 0 \<Longrightarrow> np_true_divide d r = Fin (real_of_int d / real_of_int r)"
  by (simp add: np_true_divide_def)

lemma RRis_Fin:
  "r \<noteq> 0 \<Longrightarrow> map (\<lambda>d. np_true_divide d r) (np_diff c) = map Fin (inter_beat_intervals r c)"
  by (simp add: np_true_divide_Fin np_diff_conv inter_beat_intervals_def)

lemma length_inter_beat_intervals [simp]:
  "length (inter_beat_intervals r c) = length c - 1"
  by (simp add: inter_beat_intervals_def)

lemma rsa_value_returns: "rsa_value r c = Inr (projr (rsa_value r c))"
proof (cases "length (np_diff c) > 1")
  case True
  then obtain x xs where "map (\<lambda>d. np_true_divide d r) (np_diff c) = x # xs"
    by (cases "np_diff c") auto
  then show ?thesis
    by (simp add: rsa_value_def Let_def np_max_def np_min_def)
next
  case False
  then show ?thesis by (simp add: rsa_value_def Let_def)
qed

lemma rsa_value_few_beats: "length c < 3 \<Longrightarrow> rsa_value r c = Inr NaN"
  by (auto simp add: rsa_value_def Let_def)

lemma rsa_value_range:
  assumes "r \<noteq> 0" "3 \<le> length c"
  shows "rsa_value r c =
    Inr (Fin (Max (set (inter_beat_intervals r c)) - Min (set (inter_beat_intervals r c))))"
proof -
  have ne: "inter_beat_intervals r c \<noteq> []"
    using assms(2) by (auto simp: inter_beat_intervals_def)
  show ?thesis
    using assms by (simp add: rsa_value_def Let_def RRis_Fin np_max_Fin [OF ne] np_min_Fin [OF ne] fsub_def)
qed

lemma rsa_values_returns:
  "rsa_values onsets rpeaks r = Inr (map (\<lambda>c. projr (rsa_value r c)) (cycles_rri onsets rpeaks))"
  unfolding rsa_values_def by (rule sequenceE_map_Inr) (rule rsa_value_returns)

lemma cycles_rri_conv:
  "cycles_rri onsets rpeaks = map (beats_in_cycle onsets rpeaks) [0 ..< length onsets - 1]"
  by (simp add: cycles_rri_def beats_in_cycle_def)

lemma rsa_values_nth:
  assumes "i + 1 < length onsets"
  shows "\<exists>vals. rsa_values onsets rpeaks r = Inr vals \<and> length vals = length onsets - 1
     \<and> Inr (vals ! i) = rsa_value r (beats_in_cycle onsets rpeaks i)"
  using assms by (simp add: rsa_values_returns cycles_rri_conv rsa_value_returns [symmetric])


lemma foldl_fadd_Fin: "foldl fadd (Fin a) (map Fin xs) = Fin (a + sum_list xs)"
  by (induction xs arbitrary: a) (simp_all add: add.assoc)

lemma np_sum_Fin: "np_sum (map Fin xs) = Fin (sum_list xs)"
  by (simp add: np_sum_def foldl_fadd_Fin)

lemma filter_not_nan:
  "(\<And>v. v \<in> set vals \<Longrightarrow> nan_or_finite v) \<Longrightarrow>
   filter (\<lambda>v. \<not> np_isnan v) vals = map Fin (valid_values vals)"
proof (induction vals)
  case Nil
  then show ?case by (simp add: valid_values_def)
next
  case (Cons v vals)
  then have "nan_or_finite v" by simp
  with Cons show ?case
    by (cases v) (simp_all add: valid_values_def np_isnan_def nan_or_finite_def)
qed


lemma np_sum_map_Fin: "np_sum (map (\<lambda>x. Fin (f x)) xs) = Fin (sum_list (map f xs))"
  using np_sum_Fin [of "map f xs"] by (simp add: o_def)

lemma np_nanvar_valid:
  assumes "\<And>v. v \<in> set vals \<Longrightarrow> nan_or_finite v"
  shows "np_nanvar vals (Suc 0) =
    (if 2 \<le> length (valid_values vals) then Fin (sample_variance (valid_values vals)) else NaN)"
proof -
  define xs where "xs = valid_values vals"
  have flt: "filter (\<lambda>v. \<not> np_isnan v) vals = map Fin xs"
    using filter_not_nan assms by (simp add: xs_def)
  have "np_nanvar vals (Suc 0) = (if 2 \<le> length xs then Fin (sample_variance xs) else NaN)"
    unfolding np_nanvar_def Let_def flt
    by (auto simp: np_sum_Fin np_sum_map_Fin mean_def sample_variance_def fsub_def
        power2_eq_square o_def)
  then show ?thesis by (simp add: xs_def)
qed

lemma sample_variance_nonneg: "2 \<le> length xs \<Longrightarrow> 0 \<le> sample_variance xs"
  unfolding sample_variance_def
  by (intro divide_nonneg_nonneg sum_list_nonneg) auto

lemma np_nanstd_valid:
  assumes "\<And>v. v \<in> set vals \<Longrightarrow> nan_or_finite v"
  shows "np_nanstd vals (Suc 0) =
    (if 2 \<le> length (valid_values vals) then Fin (sample_sd (valid_values vals)) else NaN)"
  by (simp add: np_nanstd_def np_nanvar_valid [OF assms] sample_sd_def sample_variance_nonneg)

lemma rsa_value_nan_or_finite:
  assumes "r \<noteq> 0"
  shows "nan_or_finite (projr (rsa_value r c))"
proof (cases "3 \<le> length c")
  case True
  then show ?thesis by (simp add: rsa_value_range [OF assms] nan_or_finite_def)
next
  case False
  then show ?thesis by (simp add: rsa_value_few_beats nan_or_finite_def)
qed

lemma rsa_values_nan_or_finite:
  assumes "r \<noteq> 0" "rsa_values onsets rpeaks r = Inr vals" "v \<in> set vals"
  shows "nan_or_finite v"
  using assms by (auto simp: rsa_values_returns rsa_value_nan_or_finite)

lemma ecg_rsa_p2t_features_eq:
  "ecg_rsa_p2t interp onsets rpeaks r False period peaks =
     Inr (P2T_Features
       \<lparr> RSA_P2T_Mean = np_nanmean (projr (rsa_values onsets rpeaks r)),
         RSA_P2T_Mean_log = np_log (np_nanmean (projr (rsa_values onsets rpeaks r))),
         RSA_P2T_SD = np_nanstd (projr (rsa_values onsets rpeaks r)) 1,
         RSA_P2T_NoRSA = length (filter np_isnan (projr (rsa_values onsets rpeaks r))) \<rparr>)"
  by (simp add: ecg_rsa_p2t_def rsa_values_returns Let_def)




text \<open>
  Claim C1, as stated, fails: a cycle with exactly two beats has one inter-beat interval,
  whose maximum less its minimum is zero, but the guard \<open>len(RRis) > 1\<close> leaves the value
  of that cycle not-a-number.
\<close>

theorem p2t_two_beats_counterexample:
  "beats_in_cycle [0, 10] [2, 5] 0 = [2, 5] \<and>
   inter_beat_intervals 1 [2, 5] = [3] \<and>
   rsa_values [0, 10] [2, 5] 1 = Inr [NaN]"
  by (simp add: beats_in_cycle_def inter_beat_intervals_def rsa_values_def cycles_rri_def
      rsa_value_def)

text \<open>
  Claim C1, amended: for every respiratory cycle, from onset \<open>i\<close> to onset \<open>i + 1\<close>, that
  contains at least three beats (at least two inter-beat intervals), at a sampling rate other
  than zero, the per-cycle value is the maximum less the minimum of the successive inter-beat
  intervals of the beats in that half-open interval, and it is not negative.
\<close>

theorem p2t_cycle_value:
  assumes "sampling_rate \<noteq> 0"
    and "i + 1 < length rsp_onsets"
    and "3 \<le> length (beats_in_cycle rsp_onsets rpeaks i)"
  shows "\<exists>vals. rsa_values rsp_onsets rpeaks sampling_rate = Inr vals \<and>
      length vals = length rsp_onsets - 1 \<and>
      vals ! i =
        Fin (Max (set (inter_beat_intervals sampling_rate (beats_in_cycle rsp_onsets rpeaks i)))
           - Min (set (inter_beat_intervals sampling_rate (beats_in_cycle rsp_onsets rpeaks i)))) \<and>
      0 \<le> Max (set (inter_beat_intervals sampling_rate (beats_in_cycle rsp_onsets rpeaks i)))
           - Min (set (inter_beat_intervals sampling_rate (beats_in_cycle rsp_onsets rpeaks i)))"
proof -
  let ?ivs = "inter_beat_intervals sampling_rate (beats_in_cycle rsp_onsets rpeaks i)"
  have ne: "?ivs \<noteq> []"
    using assms(3) by (auto simp: inter_beat_intervals_def)
  then have "Min (set ?ivs) \<le> Max (set ?ivs)"
    by (simp add: Min_le_iff)
  moreover from rsa_values_nth [OF assms(2)]
  obtain vals where "rsa_values rsp_onsets rpeaks sampling_rate = Inr vals"
    "length vals = length rsp_onsets - 1"
    "Inr (vals ! i) = rsa_value sampling_rate (beats_in_cycle rsp_onsets rpeaks i)"
    by blast
  ultimately show ?thesis
    using rsa_value_range [OF assms(1) assms(3)] by simp
qed

theorem p2t_cycle_value_witness:
  "(2::int) \<noteq> 0 \<and> 0 + 1 < length [0, 10, 20 :: int] \<and>
   beats_in_cycle [0, 10, 20] [2, 5, 9, 12, 14, 19] 0 = [2, 5, 9] \<and>
   inter_beat_intervals 2 [2, 5, 9] = [3 / 2, 2] \<and>
   (\<exists>vals. rsa_values [0, 10, 20] [2, 5, 9, 12, 14, 19] 2 = Inr vals \<and>
      length vals = 2 \<and> vals ! 0 = Fin (1 / 2))"
proof -
  have b: "beats_in_cycle [0, 10, 20] [2, 5, 9, 12, 14, 19] 0 = [2, 5, 9]"
    by (simp add: beats_in_cycle_def)
  have v: "inter_beat_intervals 2 [2, 5, 9] = [3 / 2, 2]"
    by (simp add: inter_beat_intervals_def upt_rec)
  have h1: "(2::int) \<noteq> 0" by simp
  have h2: "0 + 1 < length [0, 10, 20 :: int]" by simp
  have h3: "3 \<le> length (beats_in_cycle [0, 10, 20] [2, 5, 9, 12, 14, 19] 0)"
    by (simp add: b)
  show ?thesis
    using p2t_cycle_value [OF h1 h2 h3] b v by (simp add: numeral_2_eq_2)
qed



text \<open>
  Claim C6: \<open>RSA_P2T_SD\<close> is the sample standard deviation, with divisor \<open>n - 1\<close>, of the
  \<open>n\<close> per-cycle values that are numbers when there are at least two of them; with exactly
  one it is not-a-number, hence not zero.
\<close>

theorem p2t_sd_bessel:
  assumes "sampling_rate \<noteq> 0"
  shows "\<exists>vals f. rsa_values rsp_onsets rpeaks sampling_rate = Inr vals \<and>
     ecg_rsa_p2t interp rsp_onsets rpeaks sampling_rate False ecg_period rsp_peaks
       = Inr (P2T_Features f) \<and>
     RSA_P2T_SD f =
       (if 2 \<le> length (valid_values vals) then Fin (sample_sd (valid_values vals)) else NaN) \<and>
     (length (valid_values vals) = 1 \<longrightarrow> RSA_P2T_SD f = NaN \<and> RSA_P2T_SD f \<noteq> Fin 0)"
proof -
  define vals where "vals = projr (rsa_values rsp_onsets rpeaks sampling_rate)"
  have r: "rsa_values rsp_onsets rpeaks sampling_rate = Inr vals"
    by (simp add: vals_def rsa_values_returns)
  have "np_nanstd vals (Suc 0) =
      (if 2 \<le> length (valid_values vals) then Fin (sample_sd (valid_values vals)) else NaN)"
    by (rule np_nanstd_valid) (rule rsa_values_nan_or_finite [OF assms r])
  then show ?thesis
    unfolding ecg_rsa_p2t_features_eq vals_def [symmetric] r by simp
qed

theorem p2t_sd_bessel_witness:
  "(1::int) \<noteq> 0 \<and>
   rsa_values [0, 10, 20] [2, 5, 9, 12] 1 = Inr [Fin 1, NaN] \<and>
   valid_values [Fin 1, NaN] = [1] \<and>
   (\<exists>f. ecg_rsa_p2t (\<lambda>x y n. Inr []) [0, 10, 20] [2, 5, 9, 12] 1 False [] []
           = Inr (P2T_Features f) \<and> RSA_P2T_SD f = NaN)"
proof -
  have h: "(1::int) \<noteq> 0" by simp
  have v: "rsa_values [0, 10, 20] [2, 5, 9, 12] 1 = Inr [Fin 1, NaN]"
    by (simp add: rsa_values_def cycles_rri_def rsa_value_def np_true_divide_def np_max_def
        np_min_def fsub_def upt_rec)
  have x: "valid_values [Fin 1, NaN] = [1]"
    by (simp add: valid_values_def)
  show ?thesis
    using p2t_sd_bessel [OF h, of "[0, 10, 20]" "[2, 5, 9, 12]" "\<lambda>x y n. Inr []" "[]" "[]"]
    by (auto simp: v x)
qed

text \<open>
  Claim C7: in the non-continuous mode the estimator returns, and \<open>RSA_P2T_Mean_log\<close> is
  \<open>np.log\<close> of the returned \<open>RSA_P2T_Mean\<close>: the natural logarithm when the mean is
  positive.
\<close>

theorem p2t_mean_log:
  "\<exists>f. ecg_rsa_p2t interp rsp_onsets rpeaks sampling_rate False ecg_period rsp_peaks
          = Inr (P2T_Features f) \<and>
       RSA_P2T_Mean_log f = np_log (RSA_P2T_Mean f) \<and>
       (\<forall>m. RSA_P2T_Mean f = Fin m \<and> 0 < m \<longrightarrow> RSA_P2T_Mean_log f = Fin (ln m))"
  unfolding ecg_rsa_p2t_features_eq by simp

theorem p2t_mean_log_witness:
  "\<exists>f. ecg_rsa_p2t (\<lambda>x y n. Inr []) [0, 10, 20, 30] [2, 5, 9, 12, 25, 26, 29] 1 False [] []
          = Inr (P2T_Features f) \<and>
       RSA_P2T_Mean f = Fin (3 / 2) \<and> RSA_P2T_Mean_log f = Fin (ln (3 / 2))"
proof -
  have v: "rsa_values [0, 10, 20, 30] [2, 5, 9, 12, 25, 26, 29] 1 = Inr [Fin 1, NaN, Fin 2]"
    by (simp add: rsa_values_def cycles_rri_def rsa_value_def np_true_divide_def np_max_def
        np_min_def fsub_def upt_rec)
  have m: "np_nanmean [Fin 1, NaN, Fin 2] = Fin (3 / 2)"
    by (simp add: np_nanmean_def np_isnan_def np_sum_def)
  have f: "RSA_P2T_Mean f = Fin (3 / 2)"
    if "ecg_rsa_p2t (\<lambda>x y n. Inr []) [0, 10, 20, 30] [2, 5, 9, 12, 25, 26, 29] 1 False [] []
          = Inr (P2T_Features f)" for f
    using that by (auto simp: ecg_rsa_p2t_def v m Let_def)
  show ?thesis
    using p2t_mean_log [of "\<lambda>x y n. Inr []" "[0, 10, 20, 30]" "[2, 5, 9, 12, 25, 26, 29]" 1 "[]" "[]"] f
    by fastforce
qed

subsection \<open>The cycle extractor\<close>

lemma count_list_sort [simp]: "count_list (sort xs) x = count_list xs x"
  by (simp add: count_list_eq_length_filter filter_sort)










lemma set_np_where: "set (np_where m) = int ` {i. i < length m \<and> m ! i}"
  by (auto simp: np_where_def)







subsection \<open>The Porges-Bohrer estimator\<close>

lemma epoch_index_div: "epoch_index i = i div 60"
proof -
  have "real i / 2 / 30 = real i / real 60" by simp
  then show ?thesis
    unfolding epoch_index_def by (simp only: floor_divide_of_nat_eq nat_int)
qed

lemma filter_zip_interval:
  "map snd (filter (\<lambda>(j, x). a \<le> j \<and> j < b) (zip [0 ..< length xs] xs))
     = take (b - a) (drop a xs)"
proof (induction xs rule: rev_induct)
  case Nil
  then show ?case by simp
next
  case (snoc x xs)
  have z: "zip [0 ..< length (xs @ [x])] (xs @ [x]) = zip [0 ..< length xs] xs @ [(length xs, x)]"
    by simp
  show ?case
    unfolding z using snoc by (auto simp: not_le not_less)
qed

lemma time_rows:
  "map snd (filter (\<lambda>(e, x). e = i) (zip (map epoch_index [0 ..< length xs]) xs))
     = take 60 (drop (60 * i) xs)"
proof -
  have "filter (\<lambda>(e, x). e = i) (zip (map epoch_index [0 ..< length xs]) xs)
      = map (\<lambda>(j, x). (epoch_index j, x))
          (filter (\<lambda>(j, x). 60 * i \<le> j \<and> j < 60 * i + 60) (zip [0 ..< length xs] xs))"
    by (auto simp: zip_map1 filter_map o_def epoch_index_div split_def
        intro!: arg_cong [where f = "map _"] filter_cong)
  then have "map snd (filter (\<lambda>(e, x). e = i) (zip (map epoch_index [0 ..< length xs]) xs))
      = map snd (filter (\<lambda>(j, x). 60 * i \<le> j \<and> j < 60 * i + 60) (zip [0 ..< length xs] xs))"
    by (simp add: o_def split_def)
  then show ?thesis
    by (simp add: filter_zip_interval)
qed


lemma epoch_index_Max:
  assumes "0 < n"
  shows "Max (set (map epoch_index [0 ..< n])) = (n - 1) div 60"
proof (rule Max_eqI)
  show "finite (set (map epoch_index [0 ..< n]))" by simp
  show "y \<le> (n - 1) div 60" if "y \<in> set (map epoch_index [0 ..< n])" for y
  proof -
    from that obtain j where "j < n" "y = j div 60"
      by (auto simp: epoch_index_div)
    then show ?thesis by (simp add: div_le_mono)
  qed
  show "(n - 1) div 60 \<in> set (map epoch_index [0 ..< n])"
    using assms by (auto simp: epoch_index_div image_iff intro!: bexI [where x = "n - 1"])
qed

lemma pb_epoch_list_eq:
  "pb_epoch_list xs =
     (if xs = []
      then Inl (ValueError ''zero-size array to reduction operation maximum which has no identity'')
      else Inr (epochs_of xs))"
proof (cases "xs = []")
  case True
  then show ?thesis by (simp add: pb_epoch_list_def)
next
  case False
  let ?time = "zip (map epoch_index [0 ..< length xs]) xs"
  have ne: "?time \<noteq> []" using False by (cases xs) (simp_all add: upt_rec)
  have fst: "map fst ?time = map epoch_index [0 ..< length xs]"
    by simp
  have mx: "Max (set (map fst ?time)) = (length xs - 1) div 60"
    unfolding fst using False by (intro epoch_index_Max) simp
  have loc: "time_loc ?time i = Inr (take 60 (drop (60 * i) xs))"
    if "i \<in> set [0 ..< (length xs - 1) div 60 + 1]" for i
  proof -
    from that have "60 * i \<le> length xs - 1" by auto
    with False have "60 * i < length xs" by (cases xs) auto
    then have "take 60 (drop (60 * i) xs) \<noteq> []" by simp
    then show ?thesis
      unfolding time_loc_def Let_def time_rows by simp
  qed
  have "sequenceE (map (time_loc ?time) [0 ..< (length xs - 1) div 60 + 1])
      = Inr (map (\<lambda>i. take 60 (drop (60 * i) xs)) [0 ..< (length xs - 1) div 60 + 1])"
    by (rule sequenceE_map_Inr) (rule loc)
  then show ?thesis
    using ne False unfolding pb_epoch_list_def Let_def mx epochs_of_def by simp
qed

lemma valid_values_Fin [simp]: "valid_values (map Fin xs) = xs"
  by (induction xs) (simp_all add: valid_values_def)

lemma pd_var_Fin:
  "pd_var (map Fin e) = (if 2 \<le> length e then Fin (sample_variance e) else NaN)"
proof -
  have "nan_or_finite v" if "v \<in> set (map Fin e)" for v
    using that by (auto simp: nan_or_finite_def)
  then have "np_nanvar (map Fin e) (Suc 0) =
      (if 2 \<le> length (valid_values (map Fin e))
       then Fin (sample_variance (valid_values (map Fin e))) else NaN)"
    by (rule np_nanvar_valid)
  then show ?thesis
    by (simp add: pd_var_def)
qed

lemma epoch_value_not_nan: "2 \<le> length e \<Longrightarrow> \<not> np_isnan (epoch_value e)"
  using sample_variance_nonneg [of e]
  by (auto simp: epoch_value_def np_isnan_def)

lemma pb_variance_epoch:
  "np_log (fdiv (pd_var (map Fin e)) (Fin 1000)) = (if 2 \<le> length e then epoch_value e else NaN)"
  by (simp add: pd_var_Fin epoch_value_def)

lemma pb_variance_Fin:
  "filter (\<lambda>row. \<not> np_isnan row) (pb_variance (map (map Fin) es))
     = map epoch_value (filter (\<lambda>e. 2 \<le> length e) es)"
proof (induction es)
  case Nil
  then show ?case by (simp add: pb_variance_def)
next
  case (Cons e es)
  have "pb_variance (map (map Fin) (e # es))
      = (if 2 \<le> length e then epoch_value e else NaN) # pb_variance (map (map Fin) es)"
    unfolding pb_variance_def list.map pb_variance_epoch ..
  then show ?case
    using Cons epoch_value_not_nan [of e] by (simp add: np_isnan_def)
qed

lemma epochs_of_map: "epochs_of (map f xs) = map (map f) (epochs_of xs)"
  by (simp add: epochs_of_def take_map drop_map)

lemma pb_epochs_Fin:
  "pb_epochs (map Fin rs) =
     (if rs = []
      then Inl (ValueError ''zero-size array to reduction operation maximum which has no identity'')
      else if filter (\<lambda>e. 2 \<le> length e) (epochs_of rs) = []
      then Inl (ValueError ''No objects to concatenate'')
      else Inr (pd_mean (map epoch_value (filter (\<lambda>e. 2 \<le> length e) (epochs_of rs)))))"
  by (simp add: pb_epochs_def pb_epoch_list_eq epochs_of_map pb_variance_Fin Let_def pd_concat_def)



lemma epochs_of_first: "epochs_of xs = take 60 xs # tl (epochs_of xs)"
  by (simp add: epochs_of_def upt_rec [of 0])

lemma kept_epochs_empty_iff:
  "filter (\<lambda>e. 2 \<le> length e) (epochs_of rs) = [] \<longleftrightarrow> length rs < 2"
proof
  assume "filter (\<lambda>e. 2 \<le> length e) (epochs_of rs) = []"
  then have "\<not> 2 \<le> length (take 60 rs)"
    by (subst (asm) epochs_of_first) (simp split: if_splits)
  then show "length rs < 2" by simp
next
  assume "length rs < 2"
  then have "length e < 2" if "e \<in> set (epochs_of rs)" for e
    using that by (auto simp: epochs_of_def)
  then show "filter (\<lambda>e. 2 \<le> length e) (epochs_of rs) = []"
    by (auto simp: filter_empty_conv not_le)
qed

lemma pd_mean_Fin: "xs \<noteq> [] \<Longrightarrow> pd_mean (map Fin xs) = Fin (mean xs)"
  by (simp add: pd_mean_def np_nanmean_def np_isnan_def np_sum_Fin mean_def)







lemma ecg_rsa_pb_eq:
  "pb_residual C ecg_period sampling_rate = Inr zmf \<Longrightarrow>
   ecg_rsa_pb C ecg_period sampling_rate False =
     bindE (pb_epochs zmf) (\<lambda>v. Inr (Some \<lparr> RSA_PorgesBohrer = v \<rparr>))"
  by (simp add: ecg_rsa_pb_def)





text \<open>
  Claim C3, as stated, fails: a residual of two samples, one second of signal, is a single
  epoch that is not complete, and it contributes its value, which is returned.
\<close>

theorem pb_partial_epoch_counterexample:
  "epochs_of [0, 2 :: real] = [[0, 2]] \<and>
   sample_variance [0, 2] = 2 \<and>
   pb_epochs [Fin 0, Fin 2] = Inr (Fin (ln (2 / 1000)))"
proof -
  have e: "epochs_of [0, 2 :: real] = [[0, 2]]"
    by (simp add: epochs_of_def)
  have v: "sample_variance [0, 2] = 2"
    by (simp add: sample_variance_def mean_def)
  have "pb_epochs (map Fin [0, 2]) = Inr (Fin (ln (2 / 1000)))"
    unfolding pb_epochs_Fin e by (simp add: epoch_value_def v pd_mean_def np_nanmean_def np_isnan_def np_sum_def)
  then show ?thesis using e v by simp
qed

text \<open>
  Claim C3, amended: the residual is cut into successive epochs of 60 samples (30 seconds at
  2 Hz) that do not overlap, by the epoch index \<open>(i / 2) // 30\<close>; every epoch of at least two
  samples, the last and possibly shorter one included, contributes the logarithm of its
  sample variance over 1000; the epochs of a single sample give not-a-number and are dropped;
  \<open>RSA_PorgesBohrer\<close> is the mean of the values that remain, their arithmetic mean when all
  the variances are positive.
\<close>

theorem pb_epochs_mean:
  assumes "pb_residual C ecg_period sampling_rate = Inr (map Fin rs)"
    and "2 \<le> length rs"
  shows "ecg_rsa_pb C ecg_period sampling_rate False =
      Inr (Some \<lparr> RSA_PorgesBohrer =
        pd_mean (map epoch_value (filter (\<lambda>e. 2 \<le> length e) (epochs_of rs))) \<rparr>) \<and>
    ((\<forall>e \<in> set (epochs_of rs). 2 \<le> length e \<longrightarrow> 0 < sample_variance e) \<longrightarrow>
      ecg_rsa_pb C ecg_period sampling_rate False =
      Inr (Some \<lparr> RSA_PorgesBohrer =
        Fin (mean (map (\<lambda>e. ln (sample_variance e / 1000))
                    (filter (\<lambda>e. 2 \<le> length e) (epochs_of rs)))) \<rparr>))"
proof -
  let ?kept = "filter (\<lambda>e. 2 \<le> length e) (epochs_of rs)"
  have ne: "?kept \<noteq> []" "rs \<noteq> []"
    using assms(2) kept_epochs_empty_iff [of rs] by auto
  have 1: "ecg_rsa_pb C ecg_period sampling_rate False =
      Inr (Some \<lparr> RSA_PorgesBohrer = pd_mean (map epoch_value ?kept) \<rparr>)"
    using ne by (simp add: ecg_rsa_pb_eq [OF assms(1)] pb_epochs_Fin)
  have 2: "pd_mean (map epoch_value ?kept)
      = Fin (mean (map (\<lambda>e. ln (sample_variance e / 1000)) ?kept))"
    if "\<forall>e \<in> set (epochs_of rs). 2 \<le> length e \<longrightarrow> 0 < sample_variance e"
  proof -
    have eq: "map epoch_value ?kept = map Fin (map (\<lambda>e. ln (sample_variance e / 1000)) ?kept)"
      using that by (simp add: epoch_value_def)
    have ne': "map (\<lambda>e. ln (sample_variance e / 1000)) ?kept \<noteq> []"
      using ne by simp
    show ?thesis
      unfolding eq by (rule pd_mean_Fin [OF ne'])
  qed
  show ?thesis using 1 2 by simp
qed

text \<open>A residual of the two samples 0 and 2, returned here by a band-pass stand-in.\<close>

theorem pb_epochs_mean_witness:
  "pb_residual (spec_collaborators \<lparr> signal_filter := (\<lambda>xs sr lo hi m ord w. Inr [Fin 0, Fin 2]) \<rparr>)
      [Fin 1, Fin 2] 2 = Inr (map Fin [0, 2]) \<and>
   (2::nat) \<le> length [0, 2 :: real] \<and>
   ecg_rsa_pb (spec_collaborators \<lparr> signal_filter := (\<lambda>xs sr lo hi m ord w. Inr [Fin 0, Fin 2]) \<rparr>)
      [Fin 1, Fin 2] 2 False = Inr (Some \<lparr> RSA_PorgesBohrer = Fin (ln (2 / 1000)) \<rparr>)"
proof -
  let ?C = "spec_collaborators \<lparr> signal_filter := (\<lambda>xs sr lo hi m ord w. Inr [Fin 0, Fin 2]) \<rparr>"
  have r: "pb_residual ?C [Fin 1, Fin 2] 2 = Inr (map Fin [0, 2])"
    by (simp add: pb_residual_def spec_collaborators_def spec_signal_resample_def np_subtract_def)
  have l: "(2::nat) \<le> length [0, 2 :: real]" by simp
  have e: "epochs_of [0, 2 :: real] = [[0, 2]]"
    by (simp add: epochs_of_def)
  have v: "sample_variance [0, 2] = 2"
    by (simp add: sample_variance_def mean_def)
  have p: "\<forall>e \<in> set (epochs_of [0, 2 :: real]). 2 \<le> length e \<longrightarrow> 0 < sample_variance e"
    by (simp add: e v)
  have m: "mean (map (\<lambda>e. ln (sample_variance e / 1000))
                    (filter (\<lambda>e. 2 \<le> length e) (epochs_of [0, 2 :: real]))) = ln (2 / 1000)"
    by (simp add: e v mean_def)
  from pb_epochs_mean [OF r l]
  have "(\<forall>e \<in> set (epochs_of [0, 2 :: real]). 2 \<le> length e \<longrightarrow> 0 < sample_variance e) \<longrightarrow>
      ecg_rsa_pb ?C [Fin 1, Fin 2] 2 False =
      Inr (Some \<lparr> RSA_PorgesBohrer =
        Fin (mean (map (\<lambda>e. ln (sample_variance e / 1000))
                    (filter (\<lambda>e. 2 \<le> length e) (epochs_of [0, 2 :: real])))) \<rparr>)"
    by (rule conjunct2)
  with p have "ecg_rsa_pb ?C [Fin 1, Fin 2] 2 False =
      Inr (Some \<lparr> RSA_PorgesBohrer =
        Fin (mean (map (\<lambda>e. ln (sample_variance e / 1000))
                    (filter (\<lambda>e. 2 \<le> length e) (epochs_of [0, 2 :: real])))) \<rparr>)"
    by (rule rev_mp)
  then have "ecg_rsa_pb ?C [Fin 1, Fin 2] 2 False
      = Inr (Some \<lparr> RSA_PorgesBohrer = Fin (ln (2 / 1000)) \<rparr>)"
    unfolding m .
  with r l show ?thesis by blast
qed

subsection \<open>The input formatter\<close>


lemma formatinput_stages:
  "ecg_rsa_formatinput C ecg_signals rsp_signals rpeaks sampling_rate =
     bindE (heart_period C (cardiac_table ecg_signals) (kept_rpeaks ecg_signals rpeaks) sampling_rate)
       (\<lambda>ecg_period.
     bindE (rsp_frame C (cardiac_table ecg_signals) rsp_signals ecg_period sampling_rate)
       (\<lambda>rsp_signals'.
     bindE (locate_rpeaks C (cardiac_table ecg_signals) (kept_rpeaks ecg_signals rpeaks))
       (\<lambda>rpeaks''.
     bindE (rsp_signal_of (pd_concat_columns (cardiac_table ecg_signals) rsp_signals'))
       (\<lambda>rsp_signal.
     Inr (pd_concat_columns (cardiac_table ecg_signals) rsp_signals', ecg_period, rpeaks'',
          rsp_signal)))))"
  by (cases ecg_signals) (simp_all add: ecg_rsa_formatinput_def cardiac_table_def kept_rpeaks_def Let_def)



lemma bindE_isl: "isl m \<Longrightarrow> isl (bindE m f)"
  by (cases m) simp_all





lemmas table_eval =
  cols_containing_def df_columns_def df_column_def df_len_def sublist_code prefix_code
  np_where_def col_eq_def



lemma bindE_eq_Inr: "bindE m f = Inr y \<longleftrightarrow> (\<exists>x. m = Inr x \<and> f x = Inr y)"
  by (cases m) simp_all

text \<open>
  Claim C9: for a cardiac argument that is a pair, the formatter and the entry point behave as
  for its first component with no beats supplied: the second component and the supplied beats
  have no influence, and the beats returned are those that the sanitizer finds in the cardiac
  table.
\<close>

theorem formatinput_tuple:
  "ecg_rsa_formatinput C (EcgTuple df info) rsp_signals rpeaks sampling_rate
     = ecg_rsa_formatinput C (EcgFrame df) rsp_signals None sampling_rate \<and>
   ecg_rsa C (EcgTuple df info) rsp_signals rpeaks sampling_rate continuous_mode
     = ecg_rsa C (EcgFrame df) rsp_signals None sampling_rate continuous_mode \<and>
   (\<forall>signals ecg_period rpeaks' rsp_signal.
      ecg_rsa_formatinput C (EcgTuple df info) rsp_signals rpeaks sampling_rate
        = Inr (signals, ecg_period, rpeaks', rsp_signal) \<longrightarrow>
      signal_formatpeaks_sanitize C (PeaksFrame df) = Inr rpeaks')"
proof (intro conjI allI impI)
  show "ecg_rsa_formatinput C (EcgTuple df info) rsp_signals rpeaks sampling_rate
     = ecg_rsa_formatinput C (EcgFrame df) rsp_signals None sampling_rate"
    by (simp add: ecg_rsa_formatinput_def)
  then show "ecg_rsa C (EcgTuple df info) rsp_signals rpeaks sampling_rate continuous_mode
     = ecg_rsa C (EcgFrame df) rsp_signals None sampling_rate continuous_mode"
    by (simp add: ecg_rsa_def)
next
  fix signals ecg_period rpeaks' rsp_signal
  assume "ecg_rsa_formatinput C (EcgTuple df info) rsp_signals rpeaks sampling_rate
        = Inr (signals, ecg_period, rpeaks', rsp_signal)"
  then have "locate_rpeaks C df None = Inr rpeaks'"
    by (auto simp: formatinput_stages bindE_eq_Inr cardiac_table_def kept_rpeaks_def)
  then show "signal_formatpeaks_sanitize C (PeaksFrame df) = Inr rpeaks'"
    by (auto simp: locate_rpeaks_def split: sum.splits error.splits)
qed

text \<open>The beats supplied are at sample 2 and the pair carries a beat at sample 7; the beat
  returned is the one marked in the table, at row 1.\<close>

theorem formatinput_tuple_witness:
  "ecg_rsa_formatinput spec_collaborators
     (EcgTuple
        [(''ECG_Rate'', [Fin 60, Fin 60, Fin 60]), (''ECG_R_Peaks'', [Fin 0, Fin 1, Fin 0]),
         (''RSP_Phase'', [Fin 1, Fin 1, Fin 0]), (''RSP_Phase_Completion'', [Fin 0, Fin (1 / 2), Fin 0])]
        [(''ECG_R_Peaks'', [7])])
     RspNone (Some [(''ECG_R_Peaks'', [2])]) 1000
   = Inr ([(''ECG_Rate'', [Fin 60, Fin 60, Fin 60]), (''ECG_R_Peaks'', [Fin 0, Fin 1, Fin 0]),
           (''RSP_Phase'', [Fin 1, Fin 1, Fin 0]), (''RSP_Phase_Completion'', [Fin 0, Fin (1 / 2), Fin 0])],
          [Fin 60, Fin 60, Fin 60], [1], None)"
proof -
  let ?df = "[(''ECG_Rate'', [Fin 60, Fin 60, Fin 60]), (''ECG_R_Peaks'', [Fin 0, Fin 1, Fin 0]),
         (''RSP_Phase'', [Fin 1, Fin 1, Fin 0]), (''RSP_Phase_Completion'', [Fin 0, Fin (1 / 2), Fin 0])]"
  have h: "heart_period spec_collaborators ?df None 1000 = Inr [Fin 60, Fin 60, Fin 60]"
    by (simp add: heart_period_def table_eval)
  have r: "rsp_frame spec_collaborators ?df RspNone [Fin 60, Fin 60, Fin 60] 1000 = Inr None"
    by (simp add: rsp_frame_def table_eval)
  have s: "spec_sanitize (PeaksFrame ?df) = Inr [1]"
    by (simp add: spec_sanitize_def table_eval)
  have l: "locate_rpeaks spec_collaborators ?df None = Inr [1]"
    by (simp add: locate_rpeaks_def spec_collaborators_def s)
  have g: "rsp_signal_of ?df = Inr None"
    by (simp add: rsp_signal_of_def df_columns_def)
  have "ecg_rsa_formatinput spec_collaborators (EcgFrame ?df) RspNone None 1000
      = Inr (?df, [Fin 60, Fin 60, Fin 60], [1], None)"
    by (simp add: formatinput_stages cardiac_table_def kept_rpeaks_def h r l g
        pd_concat_columns_def)
  with formatinput_tuple [of spec_collaborators ?df "[(''ECG_R_Peaks'', [7])]" RspNone
      "Some [(''ECG_R_Peaks'', [2])]" 1000 False]
  show ?thesis by simp
qed

subsection \<open>The entry point\<close>




end
